theory Spec2Isabelle
  imports Main "HOL-Library.Sublist"
begin

section \<open>Data model\<close>

text \<open>
  The script works on what \<^verbatim>\<open>json.load\<close> returns: \<^verbatim>\<open>None\<close>, booleans, numbers,
  strings, lists and dicts. A dict is an association list in insertion order; a
  parsed dict has distinct keys and lookup takes the first binding. A float is
  carried as the text Python prints for it, since the script only ever formats
  numbers. A string is the list of its bytes in UTF-8, so that an ASCII character
  is one byte and the tests for an ASCII suffix or substring are those on bytes.
\<close>

datatype json =
    JNull
  | JBool bool
  | JInt int
  | JFloat string
  | JStr string
  | JArr "json list"
  | JObj "(string \<times> json) list"

text \<open>
  The exceptions the script can meet; all of them derive from \<^verbatim>\<open>Exception\<close>, and
  a class stands for its subclasses too (\<^verbatim>\<open>OSError\<close> for \<^verbatim>\<open>FileNotFoundError\<close>,
  \<^verbatim>\<open>ValueError\<close> for \<^verbatim>\<open>UnicodeDecodeError\<close> and \<^verbatim>\<open>JSONDecodeError\<close>).
\<close>

datatype exn =
  AttributeError | TypeError | KeyError | ValueError | OSError | CalledProcessError

subsection \<open>Built-in operations of Python used by the script\<close>

text \<open>
  The string operations of Python that depend on the Unicode character database
  are not written out: they are parameters of the model, and every statement
  about the script holds whatever functions they are. They are
  \<^verbatim>\<open>str.upper\<close>, \<^verbatim>\<open>str.lower\<close>, \<^verbatim>\<open>str.title\<close>, \<^verbatim>\<open>repr\<close> of a string, and the
  iteration over a string, which yields its characters, each as a string.
\<close>

record builtins =
  str_upper :: "string \<Rightarrow> string"
  str_lower :: "string \<Rightarrow> string"
  str_title :: "string \<Rightarrow> string"
  str_repr :: "string \<Rightarrow> string"
  str_iter :: "string \<Rightarrow> string list"

text \<open>\<^verbatim>\<open>name.endswith(sfx)\<close> and \<^verbatim>\<open>sep.join(parts)\<close>.\<close>

definition endswith :: "string \<Rightarrow> string \<Rightarrow> bool" where
  "endswith name sfx = suffix sfx name"

fun join :: "string \<Rightarrow> string list \<Rightarrow> string" where
  "join sep [] = []"
| "join sep [x] = x"
| "join sep (x # y # ys) = x @ sep @ join sep (y # ys)"

text \<open>The decimal numeral of a natural number and of an integer, as \<^verbatim>\<open>str\<close> prints them.\<close>

fun digits :: "nat \<Rightarrow> string" where
  "digits n =
     (if n < 10 then [char_of (48 + n)]
      else digits (n div 10) @ [char_of (48 + n mod 10)])"

declare digits.simps [simp del]

definition str_int :: "int \<Rightarrow> string" where
  "str_int i = (if i < 0 then ''-'' @ digits (nat (- i)) else digits (nat i))"

definition nl :: string where
  "nl = [CHR 0x0A]"

text \<open>
  \<^verbatim>\<open>obj.get(key, default)\<close>: only a dict has the method; on any other value the
  attribute lookup raises \<^verbatim>\<open>AttributeError\<close>.
\<close>

definition py_get :: "json \<Rightarrow> string \<Rightarrow> json \<Rightarrow> exn + json" where
  "py_get obj key dflt =
     (case obj of
        JObj kvs \<Rightarrow> Inr (case map_of kvs key of Some v \<Rightarrow> v | None \<Rightarrow> dflt)
      | _ \<Rightarrow> Inl AttributeError)"

text \<open>\<^verbatim>\<open>v.upper()\<close>: only a string has the method.\<close>

definition py_upper :: "builtins \<Rightarrow> json \<Rightarrow> exn + string" where
  "py_upper L v = (case v of JStr s \<Rightarrow> Inr (str_upper L s) | _ \<Rightarrow> Inl AttributeError)"

text \<open>
  \<^verbatim>\<open>key in data\<close>: a dict is searched for the key, a list for an equal element, a
  string for the substring; any other value is not iterable.
\<close>

definition py_contains :: "json \<Rightarrow> string \<Rightarrow> exn + bool" where
  "py_contains data key =
     (case data of
        JObj kvs \<Rightarrow> Inr (map_of kvs key \<noteq> None)
      | JArr xs \<Rightarrow> Inr (JStr key \<in> set xs)
      | JStr s \<Rightarrow> Inr (sublist key s)
      | _ \<Rightarrow> Inl TypeError)"

text \<open>\<^verbatim>\<open>data[key]\<close> with a string key: only a dict can be indexed by a string.\<close>

definition py_getitem :: "json \<Rightarrow> string \<Rightarrow> exn + json" where
  "py_getitem data key =
     (case data of
        JObj kvs \<Rightarrow> (case map_of kvs key of Some v \<Rightarrow> Inr v | None \<Rightarrow> Inl KeyError)
      | _ \<Rightarrow> Inl TypeError)"

text \<open>
  \<^verbatim>\<open>findings.extend(v)\<close>: a list gives its elements, a dict its keys, a string its
  characters; any other value is not iterable and the list stays as it was.
\<close>

definition py_extend :: "builtins \<Rightarrow> json list \<Rightarrow> json \<Rightarrow> exn + json list" where
  "py_extend L findings v =
     (case v of
        JArr xs \<Rightarrow> Inr (findings @ xs)
      | JObj kvs \<Rightarrow> Inr (findings @ map (\<lambda>kv. JStr (fst kv)) kvs)
      | JStr s \<Rightarrow> Inr (findings @ map JStr (str_iter L s))
      | _ \<Rightarrow> Inl TypeError)"

text \<open>
  What an f-string prints for a value: a string as it is, anything else by
  \<^verbatim>\<open>repr\<close>. Inside a list or a dict a string is printed by its own \<^verbatim>\<open>repr\<close>.
\<close>

fun py_repr :: "builtins \<Rightarrow> json \<Rightarrow> string" where
  "py_repr L JNull = ''None''"
| "py_repr L (JBool b) = (if b then ''True'' else ''False'')"
| "py_repr L (JInt i) = str_int i"
| "py_repr L (JFloat s) = s"
| "py_repr L (JStr s) = str_repr L s"
| "py_repr L (JArr xs) = ''['' @ join '', '' (map (py_repr L) xs) @ '']''"
| "py_repr L (JObj kvs) =
     ''{'' @
     join '', '' (map (\<lambda>kv. str_repr L (fst kv) @ '': '' @ py_repr L (snd kv)) kvs) @
     ''}''"

definition py_str :: "builtins \<Rightarrow> json \<Rightarrow> string" where
  "py_str L v = (case v of JStr s \<Rightarrow> s | _ \<Rightarrow> py_repr L v)"

section \<open>The categorizer\<close>

text \<open>
  \<^verbatim>\<open>categories\<close> is a dict with the four severity labels as keys, each bound to
  an empty list.
\<close>

type_synonym categories = "string \<rightharpoonup> json list"

definition empty_categories :: categories where
  "empty_categories =
     [''CRITICAL'' \<mapsto> [], ''HIGH'' \<mapsto> [], ''MEDIUM'' \<mapsto> [], ''INFORMATIONAL'' \<mapsto> []]"

text \<open>
  The loop body: \<^verbatim>\<open>severity = finding.get('severity', 'INFORMATIONAL').upper()\<close>,
  then \<^verbatim>\<open>if severity in categories: categories[severity].append(finding)\<close>.
  An exception leaves the loop and the function.
\<close>

fun categorize_loop :: "builtins \<Rightarrow> json list \<Rightarrow> categories \<Rightarrow> exn + categories" where
  "categorize_loop L [] categories = Inr categories"
| "categorize_loop L (finding # rest) categories =
     (case py_get finding ''severity'' (JStr ''INFORMATIONAL'') of
        Inl e \<Rightarrow> Inl e
      | Inr v \<Rightarrow>
          (case py_upper L v of
             Inl e \<Rightarrow> Inl e
           | Inr severity \<Rightarrow>
               (case categories severity of
                  Some bucket \<Rightarrow>
                    categorize_loop L rest (categories(severity \<mapsto> bucket @ [finding]))
                | None \<Rightarrow> categorize_loop L rest categories)))"

definition categorize_findings :: "builtins \<Rightarrow> json list \<Rightarrow> exn + categories" where
  "categorize_findings L findings = categorize_loop L findings empty_categories"

section \<open>The finding loader\<close>

text \<open>
  The results directory as the loader meets it: \<^verbatim>\<open>os.listdir\<close> raises or lists
  the entries in some order, and for each entry \<^verbatim>\<open>open\<close> followed by
  \<^verbatim>\<open>json.load\<close> raises or yields the parsed value.
\<close>

datatype file_result = Unreadable exn | Parsed json

datatype dir_result = ListFails exn | Listing "(string \<times> file_result) list"

text \<open>
  One file: \<^verbatim>\<open>if 'rule_detections' in data: findings.extend(data['rule_detections'])\<close>.
\<close>

definition load_file :: "builtins \<Rightarrow> file_result \<Rightarrow> json list \<Rightarrow> exn + json list" where
  "load_file L r findings =
     (case r of
        Unreadable e \<Rightarrow> Inl e
      | Parsed data \<Rightarrow>
          (case py_contains data ''rule_detections'' of
             Inl e \<Rightarrow> Inl e
           | Inr present \<Rightarrow>
               if present
               then (case py_getitem data ''rule_detections'' of
                       Inl e \<Rightarrow> Inl e
                     | Inr v \<Rightarrow> py_extend L findings v)
               else Inr findings))"

text \<open>
  The loop over the listing. The result is the list \<^verbatim>\<open>findings\<close> as it stands when
  the loop ends, together with the exception that ended it, if one did.
\<close>

fun load_loop :: "builtins \<Rightarrow> (string \<times> file_result) list \<Rightarrow> json list \<Rightarrow> json list \<times> exn option" where
  "load_loop L [] findings = (findings, None)"
| "load_loop L ((filename, r) # rest) findings =
     (if endswith filename ''.json''
      then (case load_file L r findings of
              Inl e \<Rightarrow> (findings, Some e)
            | Inr findings' \<Rightarrow> load_loop L rest findings')
      else load_loop L rest findings)"

text \<open>
  The \<^verbatim>\<open>try\<close> encloses the whole loop; the handler prints the exception and the
  function returns \<^verbatim>\<open>findings\<close>.
\<close>

definition load_security_findings :: "builtins \<Rightarrow> dir_result \<Rightarrow> json list" where
  "load_security_findings L results =
     (case results of
        ListFails e \<Rightarrow> []
      | Listing files \<Rightarrow> fst (load_loop L files []))"

section \<open>The pull request description\<close>

text \<open>The non-ASCII characters of the script's string literals, in UTF-8.\<close>

definition u_bar_chart :: string where
  "u_bar_chart = [CHR 0xF0, CHR 0x9F, CHR 0x93, CHR 0x8A]"

definition u_building_construction :: string where
  "u_building_construction = [CHR 0xF0, CHR 0x9F, CHR 0x8F, CHR 0x97]"

definition u_bullet :: string where
  "u_bullet = [CHR 0xE2, CHR 0x80, CHR 0xA2]"

definition u_clipboard :: string where
  "u_clipboard = [CHR 0xF0, CHR 0x9F, CHR 0x93, CHR 0x8B]"

definition u_closed_lock_with_key :: string where
  "u_closed_lock_with_key = [CHR 0xF0, CHR 0x9F, CHR 0x94, CHR 0x90]"

definition u_direct_hit :: string where
  "u_direct_hit = [CHR 0xF0, CHR 0x9F, CHR 0x8E, CHR 0xAF]"

definition u_high_voltage_sign :: string where
  "u_high_voltage_sign = [CHR 0xE2, CHR 0x9A, CHR 0xA1]"

definition u_information_source :: string where
  "u_information_source = [CHR 0xE2, CHR 0x84, CHR 0xB9]"

definition u_key :: string where
  "u_key = [CHR 0xF0, CHR 0x9F, CHR 0x94, CHR 0x91]"

definition u_left_pointing_magnifying_glass :: string where
  "u_left_pointing_magnifying_glass = [CHR 0xF0, CHR 0x9F, CHR 0x94, CHR 0x8D]"

definition u_link_symbol :: string where
  "u_link_symbol = [CHR 0xF0, CHR 0x9F, CHR 0x94, CHR 0x97]"

definition u_lock :: string where
  "u_lock = [CHR 0xF0, CHR 0x9F, CHR 0x94, CHR 0x92]"

definition u_no_entry_sign :: string where
  "u_no_entry_sign = [CHR 0xF0, CHR 0x9F, CHR 0x9A, CHR 0xAB]"

definition u_police_cars_revolving_light :: string where
  "u_police_cars_revolving_light = [CHR 0xF0, CHR 0x9F, CHR 0x9A, CHR 0xA8]"

definition u_robot_face :: string where
  "u_robot_face = [CHR 0xF0, CHR 0x9F, CHR 0xA4, CHR 0x96]"

definition u_round_pushpin :: string where
  "u_round_pushpin = [CHR 0xF0, CHR 0x9F, CHR 0x93, CHR 0x8D]"

definition u_shield :: string where
  "u_shield = [CHR 0xF0, CHR 0x9F, CHR 0x9B, CHR 0xA1]"

definition u_variation_selector_16 :: string where
  "u_variation_selector_16 = [CHR 0xEF, CHR 0xB8, CHR 0x8F]"

definition u_warning_sign :: string where
  "u_warning_sign = [CHR 0xE2, CHR 0x9A, CHR 0xA0]"

definition u_white_heavy_check_mark :: string where
  "u_white_heavy_check_mark = [CHR 0xE2, CHR 0x9C, CHR 0x85]"

definition u_wrench :: string where
  "u_wrench = [CHR 0xF0, CHR 0x9F, CHR 0x94, CHR 0xA7]"

text \<open>\<^verbatim>\<open>severity_icons\<close>, the table of \<^verbatim>\<open>generate_pr_body\<close>.\<close>

definition severity_icons :: "string \<rightharpoonup> string" where
  "severity_icons =
     [''CRITICAL'' \<mapsto> u_police_cars_revolving_light,
      ''HIGH'' \<mapsto> u_warning_sign @ u_variation_selector_16,
      ''MEDIUM'' \<mapsto> u_clipboard,
      ''INFORMATIONAL'' \<mapsto> u_information_source @ u_variation_selector_16]"

text \<open>
  The three constant parts of the description: the f-string that starts \<^verbatim>\<open>body\<close>
  (with its four holes), the heading of the fixes, and the closing text.
\<close>

definition pr_body_header :: "builtins \<Rightarrow> string \<Rightarrow> string \<Rightarrow> nat \<Rightarrow> string" where
  "pr_body_header L icon severity n =
     ''## '' @ icon @ '' Security Remediation: '' @ str_title L severity @
         '' Issues'' @ nl @
         nl @
         ''### '' @ u_bar_chart @ '' Issues Fixed'' @ nl @
         ''This pull request addresses **'' @
         digits n @ '' '' @ str_lower L severity @
         '' severity security issues** identified by CrowdStrike FCS CLI.'' @ nl @
         nl @
         ''### '' @ u_left_pointing_magnifying_glass @ '' Security Findings Addressed:'' @
         nl"

definition pr_body_fixes_heading :: string where
  "pr_body_fixes_heading =
     nl @
     ''### '' @ u_white_heavy_check_mark @ '' Fixes Applied:'' @ nl"

definition pr_body_footer :: string where
  "pr_body_footer =
     nl @
     ''### '' @ u_direct_hit @ '' Security Impact:'' @ nl @
     ''These changes significantly improve the security posture by:'' @ nl @
     ''- **Reducing Attack Surface**: Eliminating public access and overprivileged permissions'' @
     nl @
     ''- **Enforcing Best Practices**: Implementing encryption, versioning, and least privilege'' @
     nl @
     ''- **Improving Monitoring**: Adding logging and audit capabilities'' @ nl @
     ''- **Ensuring Compliance**: Aligning with security frameworks (CIS, SOC2, NIST)'' @
     nl @
     nl @
     ''### '' @ u_link_symbol @ '' Related Resources:'' @ nl @
     ''- **Original Scan Results**: Check the workflow artifacts for detailed findings'' @
     nl @
     ''- **Security Guidelines**: [AWS Security Best Practices](https://aws.amazon.com/architecture/security-identity-compliance/)'' @
     nl @
     ''- **Compliance Frameworks**: CIS Benchmarks, SOC2, PCI-DSS'' @ nl @
     nl @
     ''### '' @ u_high_voltage_sign @ '' Testing:'' @ nl @
     ''- [x] Terraform syntax validation passed'' @ nl @
     ''- [x] Security scan validation completed'' @ nl @
     ''- [x] No breaking changes to existing functionality'' @ nl @
     ''- [x] All fixes follow AWS Well-Architected principles'' @ nl @
     nl @
     ''---'' @ nl @
     ''*This pull request was automatically generated by the shift-left security remediation system.*'' @
     nl @
     nl @
     u_robot_face @ '' Generated with [Claude Code](https://claude.com/claude-code)'' @ nl"

text \<open>
  The first loop, \<^verbatim>\<open>for i, finding in enumerate(findings, 1)\<close>: the inner
  \<^verbatim>\<open>finding.get('description', ...)\<close> is an argument of the outer call and is
  evaluated before it.
\<close>

fun findings_loop :: "builtins \<Rightarrow> nat \<Rightarrow> json list \<Rightarrow> string \<Rightarrow> exn + string" where
  "findings_loop L i [] body = Inr body"
| "findings_loop L i (finding # rest) body =
     (case py_get finding ''rule_name'' (JStr ''Unknown Rule'') of
        Inl e \<Rightarrow> Inl e
      | Inr rule_name \<Rightarrow>
          (case py_get finding ''description'' (JStr ''Security issue detected'') of
             Inl e \<Rightarrow> Inl e
           | Inr dflt \<Rightarrow>
               (case py_get finding ''details'' dflt of
                  Inl e \<Rightarrow> Inl e
                | Inr description \<Rightarrow>
                    findings_loop L (Suc i) rest
                      (body @ digits i @ ''. **'' @ py_str L rule_name @ ''**: '' @
                       py_str L description @ nl))))"

text \<open>The second loop, \<^verbatim>\<open>for fix in fixes_applied\<close>.\<close>

fun fixes_loop :: "string list \<Rightarrow> string \<Rightarrow> string" where
  "fixes_loop [] body = body"
| "fixes_loop (fix # rest) body = fixes_loop rest (body @ ''- '' @ fix @ nl)"

definition generate_pr_body :: "builtins \<Rightarrow> string \<Rightarrow> json list \<Rightarrow> string list \<Rightarrow> exn + string" where
  "generate_pr_body L severity findings fixes_applied =
     (let icon = (case severity_icons severity of Some i \<Rightarrow> i | None \<Rightarrow> u_wrench);
          body = pr_body_header L icon severity (length findings)
      in case findings_loop L 1 findings body of
           Inl e \<Rightarrow> Inl e
         | Inr body \<Rightarrow>
             Inr (fixes_loop fixes_applied (body @ pr_body_fixes_heading) @ pr_body_footer))"

section \<open>Version control and the pull request\<close>

text \<open>
  The world outside the script: which paths exist, what the results directory
  holds, and what \<^verbatim>\<open>subprocess.run\<close> with \<^verbatim>\<open>check=True\<close> and \<^verbatim>\<open>shutil.copy2\<close> do
  when called: they return (\<open>None\<close>) or raise an exception. \<^verbatim>\<open>subprocess.run\<close>
  raises \<^verbatim>\<open>CalledProcessError\<close> when the command exits with a non-zero status,
  and another exception when the program cannot be started, an argument cannot
  be passed to it, or its output cannot be decoded. Writing to standard output
  is taken to succeed.
\<close>

record world =
  os_path_exists :: "string \<Rightarrow> bool"
  os_listdir :: "string \<Rightarrow> dir_result"
  subprocess_run :: "string list \<Rightarrow> exn option"
  shutil_copy2 :: "string \<Rightarrow> string \<Rightarrow> exn option"

text \<open>What the script does to the world, in order.\<close>

datatype event = Run "string list" | Copy string string

definition base_branch :: string where
  "base_branch = ''main''"

text \<open>
  \<^verbatim>\<open>create_fix_branch\<close>, \<^verbatim>\<open>push_branch\<close> and \<^verbatim>\<open>create_pull_request\<close> catch
  \<^verbatim>\<open>CalledProcessError\<close> only; any other exception leaves the function.
\<close>

definition create_fix_branch :: "world \<Rightarrow> string \<Rightarrow> (exn + bool) \<times> event list" where
  "create_fix_branch w branch_name =
     (let cmd = [''git'', ''checkout'', ''-b'', branch_name] in
      (case subprocess_run w cmd of
         None \<Rightarrow> Inr True
       | Some e \<Rightarrow> if e = CalledProcessError then Inr False else Inl e,
       [Run cmd]))"

definition push_branch :: "world \<Rightarrow> string \<Rightarrow> (exn + bool) \<times> event list" where
  "push_branch w branch_name =
     (let cmd = [''git'', ''push'', ''-u'', ''origin'', branch_name] in
      (case subprocess_run w cmd of
         None \<Rightarrow> Inr True
       | Some e \<Rightarrow> if e = CalledProcessError then Inr False else Inl e,
       [Run cmd]))"

definition create_pull_request ::
  "world \<Rightarrow> string \<Rightarrow> string \<Rightarrow> string \<Rightarrow> (exn + bool) \<times> event list" where
  "create_pull_request w branch_name title_text body =
     (let cmd = [''gh'', ''pr'', ''create'', ''--title'', title_text, ''--body'', body,
                 ''--head'', branch_name, ''--base'', base_branch] in
      (case subprocess_run w cmd of
         None \<Rightarrow> Inr True
       | Some e \<Rightarrow> if e = CalledProcessError then Inr False else Inl e,
       [Run cmd]))"

definition commit_msg :: string where
  "commit_msg =
     u_lock @ '' Fix critical security vulnerabilities'' @ nl @
     nl @
     ''CRITICAL FIXES APPLIED:'' @ nl @
     u_bullet @ '' Block S3 bucket public access (prevents data exposure)'' @ nl @
     u_bullet @ '' Enable S3 server-side encryption (protects data at rest)'' @ nl @
     u_bullet @ '' Remove wildcard IAM permissions (enforces least privilege)'' @ nl @
     u_bullet @ '' Add IAM condition restrictions (limits scope)'' @ nl @
     u_bullet @ '' Enable S3 versioning (prevents data loss)'' @ nl @
     u_bullet @ '' Remove programmatic access keys (reduces credential risk)'' @ nl @
     u_bullet @ '' Add access logging (improves security monitoring)'' @ nl @
     nl @
     ''These fixes address the most severe security risks that could lead to:'' @ nl @
     ''- Data breaches and unauthorized access'' @ nl @
     ''- Account compromise through excessive permissions'' @ nl @
     ''- Data loss through accidental deletion'' @ nl @
     ''- Compliance violations'' @ nl @
     nl @
     u_robot_face @ '' Generated with [Claude Code](https://claude.com/claude-code)'' @
     nl @
     nl @
     ''Co-Authored-By: Claude Sonnet 4.5 <noreply@anthropic.com>''"

text \<open>
  \<^verbatim>\<open>apply_critical_fixes\<close> catches every exception and then returns \<^verbatim>\<open>False\<close>,
  as it does when the template is absent.
\<close>

definition apply_critical_fixes :: "world \<Rightarrow> bool \<times> event list" where
  "apply_critical_fixes w =
     (let secure_template = ''automation/remediation-templates/terraform-critical-fixes.tf'';
          vulnerable_file = ''terraform/main.tf'';
          copy = Copy secure_template vulnerable_file;
          add = [''git'', ''add'', vulnerable_file];
          commit = [''git'', ''commit'', ''-m'', commit_msg]
      in if os_path_exists w secure_template
         then (case shutil_copy2 w secure_template vulnerable_file of
                 Some e \<Rightarrow> (False, [copy])
               | None \<Rightarrow>
                   (case subprocess_run w add of
                      Some e \<Rightarrow> (False, [copy, Run add])
                    | None \<Rightarrow>
                        (case subprocess_run w commit of
                           Some e \<Rightarrow> (False, [copy, Run add, Run commit])
                         | None \<Rightarrow> (True, [copy, Run add, Run commit]))))
         else (False, []))"

section \<open>The workflow\<close>

text \<open>
  \<^verbatim>\<open>main\<close> returns an exit status or is left by an exception nobody catches;
  \<^verbatim>\<open>sys.exit(main())\<close> turns the first into the status of the process, and the
  interpreter ends with status 1 on the second.
\<close>

datatype outcome = Returned int | Uncaught exn

definition exit_status :: "outcome \<Rightarrow> int" where
  "exit_status r = (case r of Returned n \<Rightarrow> n | Uncaught e \<Rightarrow> 1)"

definition results_path :: string where
  "results_path = ''./fcs-results''"

definition fix_branch_name :: string where
  "fix_branch_name = ''security-fixes/critical-high-remediation''"

definition fixes_applied :: "string list" where
  "fixes_applied =
     [u_shield @ u_variation_selector_16 @
       '' Block S3 bucket public access (prevents data exposure)'',
      u_closed_lock_with_key @
       '' Enable S3 server-side encryption (protects data at rest)'',
      u_clipboard @ '' Enable S3 versioning (prevents accidental data loss)'',
      u_no_entry_sign @ '' Remove wildcard IAM permissions (enforces least privilege)'',
      u_round_pushpin @ '' Add IAM condition restrictions (limits permission scope)'',
      u_key @ '' Remove programmatic access keys (reduces credential risk)'',
      u_bar_chart @ '' Add access logging for security monitoring'',
      u_building_construction @ u_variation_selector_16 @
       '' Implement secure-by-default infrastructure patterns'']"

definition pr_title :: "nat \<Rightarrow> string" where
  "pr_title n = u_lock @ '' Fix '' @ digits n @ '' Critical/High Security Issues''"

text \<open>
  The branch taken when \<^verbatim>\<open>critical_and_high\<close> is not empty. The checkout of the
  base branch is run with \<^verbatim>\<open>check=True\<close> outside any \<^verbatim>\<open>try\<close>.
\<close>

definition remediate :: "builtins \<Rightarrow> world \<Rightarrow> json list \<Rightarrow> outcome \<times> event list" where
  "remediate L w critical_and_high =
     (let branch_name = fix_branch_name;
          checkout = [''git'', ''checkout'', ''main'']
      in case subprocess_run w checkout of
           Some e \<Rightarrow> (Uncaught e, [Run checkout])
         | None \<Rightarrow>
             (case create_fix_branch w branch_name of
                (Inl e, t1) \<Rightarrow> (Uncaught e, Run checkout # t1)
              | (Inr created, t1) \<Rightarrow>
                  if created
                  then (case apply_critical_fixes w of
                          (applied, t2) \<Rightarrow>
                            if applied
                            then (case push_branch w branch_name of
                                    (Inl e, t3) \<Rightarrow> (Uncaught e, Run checkout # t1 @ t2 @ t3)
                                  | (Inr pushed, t3) \<Rightarrow>
                                      if pushed
                                      then (case generate_pr_body L ''CRITICAL/HIGH''
                                                   critical_and_high fixes_applied of
                                              Inl e \<Rightarrow>
                                                (Uncaught e, Run checkout # t1 @ t2 @ t3)
                                            | Inr pr_body \<Rightarrow>
                                                (case create_pull_request w branch_name
                                                        (pr_title (length critical_and_high))
                                                        pr_body of
                                                   (Inl e, t4) \<Rightarrow>
                                                     (Uncaught e,
                                                      Run checkout # t1 @ t2 @ t3 @ t4)
                                                 | (Inr opened, t4) \<Rightarrow>
                                                     (Returned (if opened then 0 else 1),
                                                      Run checkout # t1 @ t2 @ t3 @ t4)))
                                      else (Returned 1, Run checkout # t1 @ t2 @ t3))
                            else (Returned 1, Run checkout # t1 @ t2))
                  else (Returned 1, Run checkout # t1)))"

text \<open>
  \<^verbatim>\<open>main\<close>: the findings are categorized before the test \<^verbatim>\<open>if not findings\<close>;
  \<^verbatim>\<open>categories['CRITICAL'] + categories['HIGH']\<close> reads two keys of the dict.
\<close>

definition main :: "builtins \<Rightarrow> world \<Rightarrow> outcome \<times> event list" where
  "main L w =
     (if \<not> os_path_exists w results_path then (Returned 0, [])
      else
        let findings = load_security_findings L (os_listdir w results_path) in
        case categorize_findings L findings of
          Inl e \<Rightarrow> (Uncaught e, [])
        | Inr categories \<Rightarrow>
            if findings = [] then (Returned 0, [])
            else (case categories ''CRITICAL'' of
                    None \<Rightarrow> (Uncaught KeyError, [])
                  | Some critical \<Rightarrow>
                      (case categories ''HIGH'' of
                         None \<Rightarrow> (Uncaught KeyError, [])
                       | Some high \<Rightarrow>
                           let critical_and_high = critical @ high in
                           if critical_and_high \<noteq> [] then remediate L w critical_and_high
                           else (Returned 0, []))))"

section \<open>Notions of the specification\<close>

text \<open>
  A finding of the data model: a dict whose \<^verbatim>\<open>severity\<close>, when the key is there,
  is a string.
\<close>

fun is_finding :: "json \<Rightarrow> bool" where
  "is_finding (JObj kvs) =
     (case map_of kvs ''severity'' of
        None \<Rightarrow> True
      | Some (JStr s) \<Rightarrow> True
      | Some _ \<Rightarrow> False)"
| "is_finding _ = False"

text \<open>
  The severity label of a finding: its \<^verbatim>\<open>severity\<close>, or INFORMATIONAL when the
  key is absent, in upper case. Anything that is not a finding has none.
\<close>

fun severity_label :: "builtins \<Rightarrow> json \<Rightarrow> string option" where
  "severity_label L (JObj kvs) =
     (case map_of kvs ''severity'' of
        None \<Rightarrow> Some (str_upper L ''INFORMATIONAL'')
      | Some (JStr s) \<Rightarrow> Some (str_upper L s)
      | Some _ \<Rightarrow> None)"
| "severity_label L _ = None"

definition bucket_labels :: "string list" where
  "bucket_labels = [''CRITICAL'', ''HIGH'', ''MEDIUM'', ''INFORMATIONAL'']"

text \<open>A results file whose top-level JSON object has the key \<^verbatim>\<open>rule_detections\<close>.\<close>

fun has_rule_detections :: "file_result \<Rightarrow> bool" where
  "has_rule_detections (Parsed (JObj kvs)) = (''rule_detections'' \<in> fst ` set kvs)"
| "has_rule_detections _ = False"

fun is_dict :: "json \<Rightarrow> bool" where
  "is_dict (JObj kvs) = True"
| "is_dict _ = False"

text \<open>
  The line of the description that belongs to the \<open>i\<close>-th finding, and the bullet
  of a fix. A key that a finding lacks is replaced by its default.
\<close>

fun field :: "json \<Rightarrow> string \<Rightarrow> json \<Rightarrow> json" where
  "field (JObj kvs) key dflt = (case map_of kvs key of Some v \<Rightarrow> v | None \<Rightarrow> dflt)"
| "field _ key dflt = dflt"

definition finding_line :: "builtins \<Rightarrow> nat \<Rightarrow> json \<Rightarrow> string" where
  "finding_line L i f =
     digits i @ ''. **'' @ py_str L (field f ''rule_name'' (JStr ''Unknown Rule'')) @ ''**: '' @
     py_str L (field f ''details'' (field f ''description'' (JStr ''Security issue detected''))) @
     nl"

definition fix_bullet :: "string \<Rightarrow> string" where
  "fix_bullet fix = ''- '' @ fix @ nl"

text \<open>
  The findings a run loads, and those among them that are CRITICAL or HIGH, the
  CRITICAL ones first.
\<close>

definition loaded_findings :: "builtins \<Rightarrow> world \<Rightarrow> json list" where
  "loaded_findings L w = load_security_findings L (os_listdir w results_path)"

definition critical_and_high_of :: "builtins \<Rightarrow> json list \<Rightarrow> json list" where
  "critical_and_high_of L findings =
     filter (\<lambda>f. severity_label L f = Some ''CRITICAL'') findings @
     filter (\<lambda>f. severity_label L f = Some ''HIGH'') findings"

text \<open>
  A run whose loaded findings contain no CRITICAL and no HIGH finding, the run
  without a results directory included.
\<close>

definition no_critical_or_high :: "builtins \<Rightarrow> world \<Rightarrow> bool" where
  "no_critical_or_high L w \<longleftrightarrow>
     \<not> os_path_exists w results_path \<or>
     (\<forall>f \<in> set (loaded_findings L w).
        severity_label L f \<noteq> Some ''CRITICAL'' \<and> severity_label L f \<noteq> Some ''HIGH'')"

text \<open>
  A run that is an intentional no-op: there is no results directory, or the
  loaded findings are findings of the data model and none of them is CRITICAL
  or HIGH (as when there is none at all).
\<close>

definition intentional_noop :: "builtins \<Rightarrow> world \<Rightarrow> bool" where
  "intentional_noop L w \<longleftrightarrow>
     \<not> os_path_exists w results_path \<or>
     ((\<forall>f \<in> set (loaded_findings L w). is_finding f) \<and>
      critical_and_high_of L (loaded_findings L w) = [])"

text \<open>
  A run that reaches the remediation path: the results directory exists, the
  loaded findings are findings of the data model, and one is CRITICAL or HIGH.
\<close>

definition remediation_reached :: "builtins \<Rightarrow> world \<Rightarrow> bool" where
  "remediation_reached L w \<longleftrightarrow>
     os_path_exists w results_path \<and>
     (\<forall>f \<in> set (loaded_findings L w). is_finding f) \<and>
     critical_and_high_of L (loaded_findings L w) \<noteq> []"

text \<open>
  The steps of the remediation, each said to succeed in terms of the world: the
  call of \<^verbatim>\<open>subprocess.run\<close> or of \<^verbatim>\<open>shutil.copy2\<close> returns.
\<close>

definition checkout_ok :: "world \<Rightarrow> bool" where
  "checkout_ok w \<longleftrightarrow> subprocess_run w [''git'', ''checkout'', ''main''] = None"

definition branch_created :: "world \<Rightarrow> bool" where
  "branch_created w \<longleftrightarrow>
     subprocess_run w [''git'', ''checkout'', ''-b'', ''security-fixes/critical-high-remediation'']
       = None"

definition template_present :: "world \<Rightarrow> bool" where
  "template_present w \<longleftrightarrow>
     os_path_exists w ''automation/remediation-templates/terraform-critical-fixes.tf''"

definition fixes_committed :: "world \<Rightarrow> bool" where
  "fixes_committed w \<longleftrightarrow>
     template_present w \<and>
     shutil_copy2 w ''automation/remediation-templates/terraform-critical-fixes.tf''
       ''terraform/main.tf'' = None \<and>
     subprocess_run w [''git'', ''add'', ''terraform/main.tf''] = None \<and>
     subprocess_run w [''git'', ''commit'', ''-m'', commit_msg] = None"

definition branch_pushed :: "world \<Rightarrow> bool" where
  "branch_pushed w \<longleftrightarrow>
     subprocess_run w
       [''git'', ''push'', ''-u'', ''origin'', ''security-fixes/critical-high-remediation'']
       = None"

definition pr_command :: "string \<Rightarrow> string \<Rightarrow> string list" where
  "pr_command title_text body =
     [''gh'', ''pr'', ''create'', ''--title'', title_text, ''--body'', body,
      ''--head'', ''security-fixes/critical-high-remediation'', ''--base'', ''main'']"

definition pr_opened :: "builtins \<Rightarrow> world \<Rightarrow> bool" where
  "pr_opened L w \<longleftrightarrow>
     (let critical_and_high = critical_and_high_of L (loaded_findings L w) in
      case generate_pr_body L ''CRITICAL/HIGH'' critical_and_high fixes_applied of
        Inl e \<Rightarrow> False
      | Inr body \<Rightarrow>
          subprocess_run w (pr_command (pr_title (length critical_and_high)) body) = None)"

definition remediation_succeeds :: "builtins \<Rightarrow> world \<Rightarrow> bool" where
  "remediation_succeeds L w \<longleftrightarrow>
     remediation_reached L w \<and> checkout_ok w \<and> branch_created w \<and> fixes_committed w \<and>
     branch_pushed w \<and> pr_opened L w"

text \<open>
  The events of a run in which every step succeeds, in order; \<open>title_text\<close> and
  \<open>body\<close> are the title and the description of the pull request.
\<close>

definition all_events :: "string \<Rightarrow> string \<Rightarrow> event list" where
  "all_events title_text body =
     [Run [''git'', ''checkout'', ''main''],
      Run [''git'', ''checkout'', ''-b'', ''security-fixes/critical-high-remediation''],
      Copy ''automation/remediation-templates/terraform-critical-fixes.tf'' ''terraform/main.tf'',
      Run [''git'', ''add'', ''terraform/main.tf''],
      Run [''git'', ''commit'', ''-m'', commit_msg],
      Run [''git'', ''push'', ''-u'', ''origin'', ''security-fixes/critical-high-remediation''],
      Run (pr_command title_text body)]"

section \<open>Example inputs\<close>

text \<open>
  The examples need built-in operations to run with. The ones below are not the
  model's account of Python, which leaves these operations as parameters: they
  are what the operations do on strings of ASCII characters, and the examples
  hold such strings only. On ASCII the letters a-z and A-Z change case and every
  other character stays; in a title a letter that follows a letter is lowercased
  and any other letter is uppercased; \<^verbatim>\<open>repr\<close> quotes a string, with double
  quotes when it holds a single quote and no double quote, and escapes the
  backslash, the quote and the control characters; a string is iterated
  character by character.
\<close>

definition ascii_upper_char :: "char \<Rightarrow> char" where
  "ascii_upper_char c =
     (let n = of_char c :: nat in if 97 \<le> n \<and> n \<le> 122 then char_of (n - 32) else c)"

definition ascii_lower_char :: "char \<Rightarrow> char" where
  "ascii_lower_char c =
     (let n = of_char c :: nat in if 65 \<le> n \<and> n \<le> 90 then char_of (n + 32) else c)"

definition ascii_is_alpha :: "char \<Rightarrow> bool" where
  "ascii_is_alpha c =
     (let n = of_char c :: nat in (65 \<le> n \<and> n \<le> 90) \<or> (97 \<le> n \<and> n \<le> 122))"

definition ascii_upper :: "string \<Rightarrow> string" where
  "ascii_upper s = map ascii_upper_char s"

definition ascii_lower :: "string \<Rightarrow> string" where
  "ascii_lower s = map ascii_lower_char s"

fun ascii_title_from :: "bool \<Rightarrow> string \<Rightarrow> string" where
  "ascii_title_from prev [] = []"
| "ascii_title_from prev (c # cs) =
     (if ascii_is_alpha c
      then (if prev then ascii_lower_char c else ascii_upper_char c) # ascii_title_from True cs
      else c # ascii_title_from False cs)"

definition ascii_title :: "string \<Rightarrow> string" where
  "ascii_title s = ascii_title_from False s"

definition ascii_hex_digit :: "nat \<Rightarrow> char" where
  "ascii_hex_digit n = (if n < 10 then char_of (48 + n) else char_of (87 + n))"

definition ascii_repr_char :: "char \<Rightarrow> char \<Rightarrow> string" where
  "ascii_repr_char q c =
     (let n = of_char c :: nat in
      if c = CHR 0x5C then [CHR 0x5C, CHR 0x5C]
      else if c = q then [CHR 0x5C, q]
      else if n = 10 then [CHR 0x5C, CHR ''n'']
      else if n = 13 then [CHR 0x5C, CHR ''r'']
      else if n = 9 then [CHR 0x5C, CHR ''t'']
      else if n < 32 \<or> n = 127
        then [CHR 0x5C, CHR ''x'', ascii_hex_digit (n div 16), ascii_hex_digit (n mod 16)]
      else [c])"

definition ascii_repr_str :: "string \<Rightarrow> string" where
  "ascii_repr_str s =
     (let q = (if CHR 0x27 \<in> set s \<and> CHR 0x22 \<notin> set s then CHR 0x22 else CHR 0x27)
      in [q] @ concat (map (ascii_repr_char q) s) @ [q])"

definition ascii_builtins :: builtins where
  "ascii_builtins =
     \<lparr>str_upper = ascii_upper, str_lower = ascii_lower, str_title = ascii_title,
      str_repr = ascii_repr_str, str_iter = map (\<lambda>c. [c])\<rparr>"

definition critical_finding :: json where
  "critical_finding =
     JObj [(''severity'', JStr ''critical''), (''rule_name'', JStr ''S3 bucket is public'')]"

definition high_finding :: json where
  "high_finding = JObj [(''severity'', JStr ''High'')]"

definition medium_finding :: json where
  "medium_finding = JObj [(''severity'', JStr ''Medium'')]"

definition low_finding :: json where
  "low_finding = JObj [(''severity'', JStr ''LOW'')]"

definition numeric_finding :: json where
  "numeric_finding = JObj [(''severity'', JInt 5)]"

definition scan_file :: "json \<Rightarrow> string \<times> file_result" where
  "scan_file finding = (''scan.json'', Parsed (JObj [(''rule_detections'', JArr [finding])]))"

definition broken_file :: "string \<times> file_result" where
  "broken_file = (''broken.json'', Unreadable ValueError)"

definition summary_file :: "string \<times> file_result" where
  "summary_file = (''summary.json'', Parsed (JObj [(''scan_status'', JStr ''done'')]))"

text \<open>
  A world in which the scan reports the given finding and every command
  succeeds, and two variations of it for a CRITICAL finding: the checkout of the
  base branch exits with a non-zero status; only the results directory exists,
  so that the template is absent.
\<close>

definition world_with :: "json \<Rightarrow> world" where
  "world_with finding =
     \<lparr>os_path_exists = (\<lambda>p. True),
      os_listdir = (\<lambda>p. Listing [scan_file finding]),
      subprocess_run = (\<lambda>cmd. None),
      shutil_copy2 = (\<lambda>src dst. None)\<rparr>"

definition world_checkout_fails :: world where
  "world_checkout_fails =
     (world_with critical_finding)\<lparr>subprocess_run :=
       (\<lambda>cmd. if cmd = [''git'', ''checkout'', ''main''] then Some CalledProcessError else None)\<rparr>"

definition world_no_template :: world where
  "world_no_template =
     (world_with critical_finding)\<lparr>os_path_exists := (\<lambda>p. p = ''./fcs-results'')\<rparr>"

section \<open>Properties of the categorizer\<close>

lemma upper_examples:
  "str_upper ascii_builtins ''critical'' = ''CRITICAL''"
  "str_upper ascii_builtins ''High'' = ''HIGH''"
  "str_upper ascii_builtins ''Medium'' = ''MEDIUM''"
  "str_upper ascii_builtins ''LOW'' = ''LOW''"
  "str_upper ascii_builtins ''INFORMATIONAL'' = ''INFORMATIONAL''"
  by code_simp+

text \<open>
  Reading the severity with its default and uppercasing it yields the severity
  label, and raises \<^verbatim>\<open>AttributeError\<close> exactly when there is none.
\<close>

lemma severity_step:
  "(case py_get f ''severity'' (JStr ''INFORMATIONAL'') of
      Inl e \<Rightarrow> Inl e
    | Inr v \<Rightarrow> py_upper L v) =
   (case severity_label L f of None \<Rightarrow> Inl AttributeError | Some s \<Rightarrow> Inr s)"
  by (cases f)
     (auto simp: py_get_def py_upper_def split: option.splits json.splits)

lemma is_finding_label: "severity_label L f = None \<longleftrightarrow> \<not> is_finding f"
  by (cases f rule: is_finding.cases) (auto split: option.splits json.splits)

lemma categorize_loop_Cons:
  "categorize_loop L (f # fs) m =
     (case severity_label L f of
        None \<Rightarrow> Inl AttributeError
      | Some s \<Rightarrow>
          (case m s of
             Some bucket \<Rightarrow> categorize_loop L fs (m(s \<mapsto> bucket @ [f]))
           | None \<Rightarrow> categorize_loop L fs m))"
proof -
  have "categorize_loop L (f # fs) m =
     (case (case py_get f ''severity'' (JStr ''INFORMATIONAL'') of
              Inl e \<Rightarrow> Inl e
            | Inr v \<Rightarrow> py_upper L v) of
        Inl e \<Rightarrow> Inl e
      | Inr s \<Rightarrow>
          (case m s of
             Some bucket \<Rightarrow> categorize_loop L fs (m(s \<mapsto> bucket @ [f]))
           | None \<Rightarrow> categorize_loop L fs m))"
    by (simp split: sum.splits)
  then show ?thesis
    by (simp add: severity_step split: option.splits)
qed

text \<open>
  The loop started from any dict \<open>m\<close>: each bucket of \<open>m\<close> grows by the findings
  that carry its label, in their order.
\<close>

lemma categorize_loop_closed:
  "categorize_loop L fs m =
     (if \<forall>f \<in> set fs. is_finding f
      then Inr (\<lambda>k. case m k of None \<Rightarrow> None
                     | Some b \<Rightarrow> Some (b @ filter (\<lambda>f. severity_label L f = Some k) fs))
      else Inl AttributeError)"
proof (induction fs arbitrary: m)
  case Nil
  show ?case by (auto simp: fun_eq_iff split: option.splits)
next
  case (Cons f fs)
  show ?case
  proof (cases "severity_label L f")
    case None
    then have "\<not> is_finding f" by (simp add: is_finding_label)
    with None show ?thesis
      by (simp add: categorize_loop_Cons del: categorize_loop.simps)
  next
    case (Some s)
    note l = this
    then have fin: "is_finding f" using is_finding_label[of L f] by simp
    show ?thesis
    proof (cases "m s")
      case None
      have step: "categorize_loop L (f # fs) m = categorize_loop L fs m"
        using l None by (simp add: categorize_loop_Cons del: categorize_loop.simps)
      have fn: "(\<lambda>k. case m k of None \<Rightarrow> None
                   | Some b \<Rightarrow> Some (b @ filter (\<lambda>f. severity_label L f = Some k) fs))
            = (\<lambda>k. case m k of None \<Rightarrow> None
                   | Some b \<Rightarrow> Some (b @ filter (\<lambda>f. severity_label L f = Some k) (f # fs)))"
        using l None by (auto simp: fun_eq_iff split: option.splits)
      show ?thesis unfolding step Cons.IH[of m] fn using fin by simp
    next
      case (Some b)
      have step: "categorize_loop L (f # fs) m = categorize_loop L fs (m(s \<mapsto> b @ [f]))"
        using l Some by (simp add: categorize_loop_Cons del: categorize_loop.simps)
      have fn: "(\<lambda>k. case (m(s \<mapsto> b @ [f])) k of None \<Rightarrow> None
                   | Some b \<Rightarrow> Some (b @ filter (\<lambda>f. severity_label L f = Some k) fs))
            = (\<lambda>k. case m k of None \<Rightarrow> None
                   | Some b \<Rightarrow> Some (b @ filter (\<lambda>f. severity_label L f = Some k) (f # fs)))"
        using l Some by (auto simp: fun_eq_iff split: option.splits)
      show ?thesis unfolding step Cons.IH[of "m(s \<mapsto> b @ [f])"] fn using fin by simp
    qed
  qed
qed

lemma empty_categories_apply:
  "empty_categories k = (if k \<in> set bucket_labels then Some [] else None)"
  by (simp add: empty_categories_def bucket_labels_def)

lemma categorize_findings_closed:
  "categorize_findings L fs =
     (if \<forall>f \<in> set fs. is_finding f
      then Inr (\<lambda>k. if k \<in> set bucket_labels
                     then Some (filter (\<lambda>f. severity_label L f = Some k) fs) else None)
      else Inl AttributeError)"
  unfolding categorize_findings_def categorize_loop_closed
  by (simp add: empty_categories_apply fun_eq_iff)

lemma categorize_low_finding:
  "categorize_findings ascii_builtins [low_finding] = Inr empty_categories"
  by (simp add: categorize_findings_def py_get_def py_upper_def upper_examples
      empty_categories_def low_finding_def)

text \<open>
  C1: for every list of findings, \<^verbatim>\<open>categorize_findings\<close> returns the four buckets,
  and the bucket of a label holds, in input order, exactly the findings whose
  severity, or INFORMATIONAL when the key is absent, is that label once in upper
  case. A finding with any other label is in no bucket.
\<close>

theorem categorize_findings_buckets:
  assumes "\<forall>f \<in> set findings. is_finding f"
  shows "categorize_findings L findings =
           Inr (\<lambda>label. if label \<in> set bucket_labels
                  then Some (filter (\<lambda>f. severity_label L f = Some label) findings)
                  else None)"
  using assms by (simp add: categorize_findings_closed)

theorem categorize_findings_buckets_witness:
  "list_all is_finding [low_finding, high_finding, JObj [], critical_finding] \<and>
   (case categorize_findings ascii_builtins [low_finding, high_finding, JObj [], critical_finding] of
      Inl e \<Rightarrow> False
    | Inr categories \<Rightarrow>
        categories ''CRITICAL'' = Some [critical_finding] \<and>
        categories ''HIGH'' = Some [high_finding] \<and>
        categories ''MEDIUM'' = Some [] \<and>
        categories ''INFORMATIONAL'' = Some [JObj []] \<and>
        categories ''LOW'' = None)"
proof -
  have h: "\<forall>f \<in> set [low_finding, high_finding, JObj [], critical_finding]. is_finding f"
    by (simp add: low_finding_def high_finding_def critical_finding_def)
  show ?thesis
    using h categorize_findings_buckets [OF h, where L = ascii_builtins]
    by (simp add: bucket_labels_def low_finding_def high_finding_def critical_finding_def
        upper_examples)
qed

text \<open>
  C2, as stated, fails: a finding whose severity is LOW is not treated as
  INFORMATIONAL; every bucket stays empty.
\<close>

theorem unrecognized_severity_counterexample:
  "categorize_findings ascii_builtins [JObj [(''severity'', JStr ''LOW'')]] = Inr empty_categories"
  using categorize_low_finding by (simp add: low_finding_def)

text \<open>
  C2, amended: a finding whose label is none of the four bucket labels is
  dropped, it is in no bucket; and two different buckets share no finding, so a
  finding lands in at most one bucket.
\<close>

theorem unrecognized_severity_dropped:
  assumes "categorize_findings L findings = Inr categories"
  shows "(severity_label L f = Some label \<and> label \<notin> set bucket_labels \<longrightarrow>
            f \<notin> \<Union> (set ` ran categories)) \<and>
         (k \<noteq> k' \<and> categories k = Some b \<and> categories k' = Some b' \<longrightarrow>
            set b \<inter> set b' = {})"
proof -
  have cats: "categories = (\<lambda>k. if k \<in> set bucket_labels
                     then Some (filter (\<lambda>f. severity_label L f = Some k) findings) else None)"
    using assms by (simp add: categorize_findings_closed split: if_splits)
  have bucket: "\<And>k b. categories k = Some b \<Longrightarrow>
      k \<in> set bucket_labels \<and> (\<forall>x \<in> set b. severity_label L x = Some k)"
    unfolding cats by (auto split: if_splits)
  have "f \<notin> \<Union> (set ` ran categories)"
    if "severity_label L f = Some label" "label \<notin> set bucket_labels"
  proof
    assume "f \<in> \<Union> (set ` ran categories)"
    then obtain k b where "categories k = Some b" "f \<in> set b"
      by (auto simp: ran_def)
    with bucket[of k b] that show False by auto
  qed
  moreover have "set b \<inter> set b' = {}"
    if "k \<noteq> k'" "categories k = Some b" "categories k' = Some b'"
    using bucket[OF that(2)] bucket[OF that(3)] that(1) by auto
  ultimately show ?thesis by blast
qed

theorem unrecognized_severity_dropped_witness:
  "categorize_findings ascii_builtins [low_finding] = Inr empty_categories \<and>
   severity_label ascii_builtins low_finding = Some ''LOW'' \<and> ''LOW'' \<notin> set bucket_labels \<and>
   low_finding \<notin> \<Union> (set ` ran empty_categories) \<and>
   ''HIGH'' \<noteq> ''MEDIUM'' \<and> empty_categories ''HIGH'' = Some [] \<and>
   empty_categories ''MEDIUM'' = Some [] \<and> set ([] :: json list) \<inter> set [] = {}"
proof -
  have label: "severity_label ascii_builtins low_finding = Some ''LOW''"
    by (simp add: low_finding_def upper_examples)
  have out: "''LOW'' \<notin> set bucket_labels"
    by (simp add: bucket_labels_def)
  have "low_finding \<notin> \<Union> (set ` ran empty_categories)"
    using unrecognized_severity_dropped
            [OF categorize_low_finding, of low_finding "''LOW''" "''HIGH''" "''MEDIUM''" "[]" "[]"]
          label out
    by simp
  then show ?thesis
    using categorize_low_finding label out by (simp add: empty_categories_def)
qed

section \<open>Properties of the loader\<close>

text \<open>A file without the key leaves \<^verbatim>\<open>findings\<close> as it is, or raises.\<close>

lemma load_file_without_key:
  "\<not> has_rule_detections r \<Longrightarrow> load_file L r findings = Inr findings' \<Longrightarrow> findings' = findings"
  by (cases r rule: has_rule_detections.cases)
     (auto simp: load_file_def py_contains_def py_getitem_def map_of_eq_None_iff
           split: if_splits sum.splits json.splits option.splits)

lemma load_loop_without_key:
  "\<forall>(filename, r) \<in> set files. \<not> has_rule_detections r \<Longrightarrow>
   fst (load_loop L files findings) = findings"
proof (induction files arbitrary: findings)
  case Nil
  show ?case by simp
next
  case (Cons x files)
  obtain filename r where x: "x = (filename, r)" by (cases x)
  from Cons.prems x have r: "\<not> has_rule_detections r"
    and rest: "\<forall>(filename, r) \<in> set files. \<not> has_rule_detections r"
    by auto
  show ?case
  proof (cases "endswith filename ''.json''")
    case False
    then show ?thesis using x Cons.IH[OF rest] by simp
  next
    case True
    show ?thesis
    proof (cases "load_file L r findings")
      case (Inl e)
      then show ?thesis using x True by simp
    next
      case (Inr findings')
      have "findings' = findings" using r Inr by (rule load_file_without_key)
      then show ?thesis using x True Inr Cons.IH[OF rest] by simp
    qed
  qed
qed

text \<open>Whether a file makes the loader raise does not depend on the findings so far.\<close>

lemma load_file_failure_any:
  "load_file L r findings = Inl e \<Longrightarrow> load_file L r findings' = Inl e"
  by (auto simp: load_file_def py_extend_def
           split: file_result.splits sum.splits if_splits json.splits)

lemma load_loop_append:
  "load_loop L (before @ after) findings =
     (case load_loop L before findings of
        (findings', Some e) \<Rightarrow> (findings', Some e)
      | (findings', None) \<Rightarrow> load_loop L after findings')"
proof (induction before arbitrary: findings)
  case Nil
  show ?case by simp
next
  case (Cons x before)
  obtain filename r where x: "x = (filename, r)" by (cases x)
  show ?case using Cons.IH
    by (simp add: x split: sum.splits)
qed

lemma load_loop_failure:
  assumes "endswith filename ''.json''" and "load_file L r [] = Inl e"
  shows "fst (load_loop L (before @ (filename, r) # after) findings) =
         fst (load_loop L before findings)"
proof -
  obtain findings' x where b: "load_loop L before findings = (findings', x)"
    by (cases "load_loop L before findings")
  have "load_file L r findings' = Inl e"
    using assms(2) by (rule load_file_failure_any)
  then show ?thesis
    using assms(1) b by (cases x) (simp_all add: load_loop_append)
qed

lemma endswith_examples:
  "endswith ''scan.json'' ''.json''" "endswith ''broken.json'' ''.json''"
  "endswith ''summary.json'' ''.json''"
  by code_simp+

text \<open>
  C3, as stated, fails: a file that cannot be parsed, met after a file that gave
  one finding, leaves the loader with that finding, not with the empty list.
\<close>

theorem load_failure_counterexample:
  "load_security_findings ascii_builtins
     (Listing [(''scan.json'', Parsed (JObj [(''rule_detections'', JArr [JObj []])])),
               (''broken.json'', Unreadable ValueError)]) = [JObj []]"
  by code_simp

text \<open>
  C3, amended: a read or parse failure is caught and ends the load; the loader
  returns what the files before the failing one gave, and reads no file after it.
\<close>

theorem load_failure_keeps_earlier_findings:
  assumes "endswith filename ''.json''" and "load_file L r [] = Inl e"
  shows "load_security_findings L (Listing (before @ (filename, r) # after)) =
         load_security_findings L (Listing before)"
  using load_loop_failure[OF assms] by (simp add: load_security_findings_def)

theorem load_failure_keeps_earlier_findings_witness:
  "endswith ''broken.json'' ''.json'' \<and> load_file ascii_builtins (Unreadable ValueError) [] = Inl ValueError \<and>
   load_security_findings ascii_builtins
     (Listing ([scan_file high_finding] @ (''broken.json'', Unreadable ValueError) #
               [summary_file])) = [high_finding]"
proof -
  have f: "load_file ascii_builtins (Unreadable ValueError) [] = Inl ValueError"
    by (simp add: load_file_def)
  have "load_security_findings ascii_builtins (Listing [scan_file high_finding]) = [high_finding]"
    by (simp add: load_security_findings_def scan_file_def endswith_examples load_file_def
        py_contains_def py_getitem_def py_extend_def)
  then show ?thesis
    using load_failure_keeps_earlier_findings
            [OF endswith_examples(2) f, where before = "[scan_file high_finding]"
               and after = "[summary_file]"]
          endswith_examples(2) f
    by simp
qed

text \<open>
  C8: when no file of the results directory is a JSON object with the key
  \<^verbatim>\<open>rule_detections\<close>, the loader returns the empty list.
\<close>

theorem load_without_rule_detections:
  assumes "\<forall>(filename, r) \<in> set files. \<not> has_rule_detections r"
  shows "load_security_findings L (Listing files) = []"
  using load_loop_without_key[OF assms] by (simp add: load_security_findings_def)

theorem load_without_rule_detections_witness:
  "\<not> has_rule_detections (snd summary_file) \<and>
   \<not> has_rule_detections (Unreadable OSError) \<and>
   load_security_findings ascii_builtins (Listing [summary_file, (''notes.txt'', Unreadable OSError)]) = []"
proof -
  have h: "\<forall>(filename, r) \<in> set [summary_file, (''notes.txt'', Unreadable OSError)].
             \<not> has_rule_detections r"
    by (simp add: summary_file_def)
  show ?thesis
    using load_without_rule_detections [OF h, where L = ascii_builtins]
    by (simp add: summary_file_def)
qed

section \<open>Properties of the pull request description\<close>

lemma py_get_dict: "is_dict f \<Longrightarrow> py_get f key dflt = Inr (field f key dflt)"
  by (cases f) (simp_all add: py_get_def)

lemma py_get_not_dict: "\<not> is_dict f \<Longrightarrow> py_get f key dflt = Inl AttributeError"
  by (cases f) (simp_all add: py_get_def)

lemma is_finding_dict: "is_finding f \<Longrightarrow> is_dict f"
  by (cases f) simp_all

text \<open>The first loop appends one line for each finding, numbered from \<open>i\<close> on.\<close>

lemma findings_loop_closed:
  "findings_loop L i fs body =
     (if \<forall>f \<in> set fs. is_dict f
      then Inr (body @ concat (map2 (finding_line L) [i..<i + length fs] fs))
      else Inl AttributeError)"
proof (induction fs arbitrary: i body)
  case Nil
  show ?case by simp
next
  case (Cons f fs)
  show ?case
  proof (cases "is_dict f")
    case False
    then show ?thesis by (simp add: py_get_not_dict)
  next
    case True
    have step: "findings_loop L i (f # fs) body = findings_loop L (Suc i) fs (body @ finding_line L i f)"
      using True by (simp add: py_get_dict finding_line_def)
    have len: "i + length (f # fs) = Suc i + length fs"
      by simp
    have "[i..<Suc i + length fs] = i # [Suc i..<Suc i + length fs]"
      by (rule upt_conv_Cons) simp
    then have lines: "concat (map2 (finding_line L) [i..<i + length (f # fs)] (f # fs)) =
        finding_line L i f @ concat (map2 (finding_line L) [Suc i..<Suc i + length fs] fs)"
      unfolding len by simp
    have all: "(\<forall>x \<in> set (f # fs). is_dict x) = (\<forall>x \<in> set fs. is_dict x)"
      using True by simp
    show ?thesis
      unfolding step lines all Cons.IH[of "Suc i"] by simp
  qed
qed

lemma fixes_loop_closed: "fixes_loop fs body = body @ concat (map fix_bullet fs)"
  by (induction fs arbitrary: body) (simp_all add: fix_bullet_def)

lemma digits_1: "digits 1 = ''1''"
  by code_simp

text \<open>
  C5: \<^verbatim>\<open>generate_pr_body\<close> is a function of its three arguments alone (and of
  the built-in operations it calls), and the description it produces is the
  header, one line for each finding in input order numbered from 1, the heading
  of the fixes, one bullet for each fix in order, and the closing text.
\<close>

theorem generate_pr_body_enumerates:
  assumes "\<forall>f \<in> set findings. is_dict f"
  shows "generate_pr_body L severity findings fixes_list =
           Inr (pr_body_header L
                  (case severity_icons severity of Some i \<Rightarrow> i | None \<Rightarrow> u_wrench)
                  severity (length findings) @
                concat (map2 (finding_line L) [1..<Suc (length findings)] findings) @
                pr_body_fixes_heading @
                concat (map fix_bullet fixes_list) @
                pr_body_footer)"
  using assms
  by (simp add: generate_pr_body_def findings_loop_closed fixes_loop_closed)

theorem generate_pr_body_enumerates_witness:
  "list_all is_dict [critical_finding, JObj []] \<and>
   generate_pr_body ascii_builtins ''HIGH'' [critical_finding, JObj []] [''Enable encryption''] =
     Inr (pr_body_header ascii_builtins (u_warning_sign @ u_variation_selector_16) ''HIGH'' 2 @
          ''1. **S3 bucket is public**: Security issue detected'' @ nl @
          ''2. **Unknown Rule**: Security issue detected'' @ nl @
          pr_body_fixes_heading @
          ''- Enable encryption'' @ nl @
          pr_body_footer)"
proof -
  have h: "\<forall>f \<in> set [critical_finding, JObj []]. is_dict f"
    by (simp add: critical_finding_def)
  have d: "digits (Suc 0) = ''1''" "digits (Suc (Suc 0)) = ''2''"
    by code_simp+
  have u: "[1..<Suc (length [critical_finding, JObj []])] = [1, 2]"
    by code_simp
  show ?thesis
    using h generate_pr_body_enumerates
             [OF h, where L = ascii_builtins and severity = "''HIGH''"
                and fixes_list = "[''Enable encryption'']"]
    unfolding u
    by (simp add: critical_finding_def severity_icons_def finding_line_def fix_bullet_def
        py_str_def d numeral_2_eq_2)
qed

section \<open>Properties of the workflow\<close>

lemma apply_critical_fixes_ok: "fst (apply_critical_fixes w) \<longleftrightarrow> fixes_committed w"
  by (auto simp: apply_critical_fixes_def fixes_committed_def template_present_def Let_def
      split: option.splits)

text \<open>\<^verbatim>\<open>apply_critical_fixes\<close> performs an initial part of copy, add, commit.\<close>

lemma apply_critical_fixes_trace:
  "(fst (apply_critical_fixes w) \<and> snd (apply_critical_fixes w) = take 3 (drop 2 (all_events t b))) \<or>
   (\<not> fst (apply_critical_fixes w) \<and>
    (snd (apply_critical_fixes w) = [] \<or>
     snd (apply_critical_fixes w) = take 1 (drop 2 (all_events t b)) \<or>
     snd (apply_critical_fixes w) = take 2 (drop 2 (all_events t b)) \<or>
     snd (apply_critical_fixes w) = take 3 (drop 2 (all_events t b))))"
  by (simp add: apply_critical_fixes_def all_events_def Let_def split: option.splits)

text \<open>\<^verbatim>\<open>main\<close> with the categorizer replaced by what it computes.\<close>

lemma main_closed:
  "main L w =
     (if \<not> os_path_exists w results_path then (Returned 0, [])
      else if \<not> (\<forall>f \<in> set (loaded_findings L w). is_finding f) then (Uncaught AttributeError, [])
      else if critical_and_high_of L (loaded_findings L w) \<noteq> []
        then remediate L w (critical_and_high_of L (loaded_findings L w))
      else (Returned 0, []))"
  by (auto simp: main_def Let_def loaded_findings_def categorize_findings_closed
      critical_and_high_of_def bucket_labels_def)

lemma main_noop: "intentional_noop L w \<Longrightarrow> main L w = (Returned 0, [])"
  by (auto simp: main_closed intentional_noop_def)

lemma no_critical_or_high_empty:
  "os_path_exists w results_path \<Longrightarrow> no_critical_or_high L w \<Longrightarrow>
   critical_and_high_of L (loaded_findings L w) = []"
  by (auto simp: no_critical_or_high_def critical_and_high_of_def filter_empty_conv)

text \<open>The remediation path with the three publishing functions unfolded.\<close>

lemma remediate_closed:
  "remediate L w cah =
     (let checkout = Run [''git'', ''checkout'', ''main''];
          branch = Run [''git'', ''checkout'', ''-b'', ''security-fixes/critical-high-remediation''];
          push = Run [''git'', ''push'', ''-u'', ''origin'', ''security-fixes/critical-high-remediation'']
      in case subprocess_run w [''git'', ''checkout'', ''main''] of
        Some e \<Rightarrow> (Uncaught e, [checkout])
      | None \<Rightarrow>
         (case subprocess_run w [''git'', ''checkout'', ''-b'', ''security-fixes/critical-high-remediation''] of
            Some e \<Rightarrow> (if e = CalledProcessError then Returned 1 else Uncaught e, [checkout, branch])
          | None \<Rightarrow>
             if \<not> fst (apply_critical_fixes w)
             then (Returned 1, checkout # branch # snd (apply_critical_fixes w))
             else (case subprocess_run w [''git'', ''push'', ''-u'', ''origin'', ''security-fixes/critical-high-remediation''] of
                     Some e \<Rightarrow> (if e = CalledProcessError then Returned 1 else Uncaught e,
                                checkout # branch # snd (apply_critical_fixes w) @ [push])
                   | None \<Rightarrow>
                      (case generate_pr_body L ''CRITICAL/HIGH'' cah fixes_applied of
                         Inl e \<Rightarrow> (Uncaught e, checkout # branch # snd (apply_critical_fixes w) @ [push])
                       | Inr body \<Rightarrow>
                          (case subprocess_run w (pr_command (pr_title (length cah)) body) of
                             None \<Rightarrow> Returned 0
                           | Some e \<Rightarrow> if e = CalledProcessError then Returned 1 else Uncaught e,
                           checkout # branch # snd (apply_critical_fixes w) @
                           [push, Run (pr_command (pr_title (length cah)) body)])))))"
  by (simp add: remediate_def create_fix_branch_def push_branch_def create_pull_request_def
      fix_branch_name_def base_branch_def pr_command_def Let_def
      split: option.splits sum.splits prod.splits)

lemma remediate_status_cases:
  "exit_status (fst (remediate L w cah)) =
     (if subprocess_run w [''git'', ''checkout'', ''main''] = None \<and>
         subprocess_run w [''git'', ''checkout'', ''-b'', ''security-fixes/critical-high-remediation''] = None \<and>
         fst (apply_critical_fixes w) \<and>
         subprocess_run w [''git'', ''push'', ''-u'', ''origin'', ''security-fixes/critical-high-remediation''] = None \<and>
         (case generate_pr_body L ''CRITICAL/HIGH'' cah fixes_applied of
            Inl e \<Rightarrow> False
          | Inr body \<Rightarrow> subprocess_run w (pr_command (pr_title (length cah)) body) = None)
      then 0 else 1)"
  unfolding remediate_closed Let_def
  by (simp add: exit_status_def split: option.splits sum.splits)

lemma exit_status_remediate:
  "exit_status (fst (remediate L w cah)) =
     (if checkout_ok w \<and> branch_created w \<and> fixes_committed w \<and> branch_pushed w \<and>
         (case generate_pr_body L ''CRITICAL/HIGH'' cah fixes_applied of
            Inl e \<Rightarrow> False
          | Inr body \<Rightarrow> subprocess_run w (pr_command (pr_title (length cah)) body) = None)
      then 0 else 1)"
  unfolding remediate_status_cases
  by (simp only: apply_critical_fixes_ok checkout_ok_def branch_created_def branch_pushed_def)

text \<open>
  Whatever happens, the events of the remediation path are an initial part of
  the events of a successful run.
\<close>

lemma remediate_trace_prefix:
  "\<exists>body. prefix (snd (remediate L w cah)) (all_events (pr_title (length cah)) body)"
proof -
  let ?t = "pr_title (length cah)"
  let ?a = "snd (apply_critical_fixes w)"
  show ?thesis
  proof (cases "subprocess_run w [''git'', ''checkout'', ''main'']")
    case (Some e)
    then have "prefix (snd (remediate L w cah)) (all_events ?t [])"
      unfolding remediate_closed Let_def by (simp add: all_events_def)
    then show ?thesis ..
  next
    case c1: None
    show ?thesis
    proof (cases "subprocess_run w [''git'', ''checkout'', ''-b'', ''security-fixes/critical-high-remediation'']")
      case (Some e)
      then have "prefix (snd (remediate L w cah)) (all_events ?t [])"
        unfolding remediate_closed Let_def using c1 by (simp add: all_events_def)
      then show ?thesis ..
    next
      case c2: None
      show ?thesis
      proof (cases "fst (apply_critical_fixes w)")
        case False
        then have r: "snd (remediate L w cah) = take 2 (all_events ?t []) @ ?a"
          unfolding remediate_closed Let_def using c1 c2 by (simp add: all_events_def)
        have "prefix (take 2 (all_events ?t []) @ ?a) (all_events ?t [])"
          using apply_critical_fixes_trace[of w ?t "[]"] False
          by (auto simp: all_events_def)
        then show ?thesis unfolding r[symmetric] ..
      next
        case ok: True
        then have a: "\<And>b. ?a = take 3 (drop 2 (all_events ?t b))"
          using apply_critical_fixes_trace[of w ?t] by auto
        show ?thesis
        proof (cases "subprocess_run w [''git'', ''push'', ''-u'', ''origin'', ''security-fixes/critical-high-remediation'']")
          case (Some e)
          then have "snd (remediate L w cah) =
              take 2 (all_events ?t []) @ ?a @ take 1 (drop 5 (all_events ?t []))"
            unfolding remediate_closed Let_def using c1 c2 ok by (simp add: all_events_def)
          then have "prefix (snd (remediate L w cah)) (all_events ?t [])"
            unfolding a[of "[]"] by (simp add: all_events_def)
          then show ?thesis ..
        next
          case c3: None
          show ?thesis
          proof (cases "generate_pr_body L ''CRITICAL/HIGH'' cah fixes_applied")
            case (Inl e)
            then have "snd (remediate L w cah) =
                take 2 (all_events ?t []) @ ?a @ take 1 (drop 5 (all_events ?t []))"
              unfolding remediate_closed Let_def using c1 c2 c3 ok by (simp add: all_events_def)
            then have "prefix (snd (remediate L w cah)) (all_events ?t [])"
              unfolding a[of "[]"] by (simp add: all_events_def)
            then show ?thesis ..
          next
            case (Inr body)
            then have "snd (remediate L w cah) =
                take 2 (all_events ?t body) @ ?a @ drop 5 (all_events ?t body)"
              unfolding remediate_closed Let_def using c1 c2 c3 ok by (simp add: all_events_def)
            then have "prefix (snd (remediate L w cah)) (all_events ?t body)"
              unfolding a[of body] by (simp add: all_events_def)
            then show ?thesis ..
          qed
        qed
      qed
    qed
  qed
qed

lemma main_trace_prefix:
  "\<exists>body. prefix (snd (main L w))
     (all_events (pr_title (length (critical_and_high_of L (loaded_findings L w)))) body)"
  using remediate_trace_prefix[of L w "critical_and_high_of L (loaded_findings L w)"]
  by (auto simp: main_closed)

text \<open>Once the base branch is checked out, the fix branch is the next command.\<close>

lemma remediate_creates_branch:
  "subprocess_run w [''git'', ''checkout'', ''main''] = None \<Longrightarrow>
   Run [''git'', ''checkout'', ''-b'', ''security-fixes/critical-high-remediation'']
     \<in> set (snd (remediate L w cah))"
  unfolding remediate_closed Let_def
  by (simp split: option.splits sum.splits)

lemma loaded_world_with: "loaded_findings L (world_with finding) = [finding]"
  by (simp add: loaded_findings_def world_with_def load_security_findings_def scan_file_def
      endswith_examples load_file_def py_contains_def py_getitem_def py_extend_def)

lemma loaded_world_no_template: "loaded_findings L world_no_template = [critical_finding]"
  by (simp add: loaded_findings_def world_no_template_def world_with_def
      load_security_findings_def scan_file_def endswith_examples load_file_def
      py_contains_def py_getitem_def py_extend_def)

lemma example_labels:
  "severity_label ascii_builtins critical_finding = Some ''CRITICAL''"
  "severity_label ascii_builtins medium_finding = Some ''MEDIUM''"
  "severity_label L numeric_finding = None"
  by (simp_all add: critical_finding_def medium_finding_def numeric_finding_def upper_examples)

lemma example_findings: "is_finding critical_finding" "is_finding medium_finding"
  by (simp_all add: critical_finding_def medium_finding_def)

lemma not_finding_numeric:
  "map_of kvs ''severity'' = Some v \<Longrightarrow> \<forall>s. v \<noteq> JStr s \<Longrightarrow> \<not> is_finding (JObj kvs)"
  by (cases v) simp_all

text \<open>
  C4: the claim holds of the three publishing steps but not of the checkout of
  the base branch. With one CRITICAL finding and a checkout that exits with a
  non-zero status, \<^verbatim>\<open>main\<close> is left by \<^verbatim>\<open>CalledProcessError\<close>, which nothing catches.
\<close>

theorem checkout_failure_is_uncaught:
  "main ascii_builtins world_checkout_fails =
     (Uncaught CalledProcessError, [Run [''git'', ''checkout'', ''main'']])"
  by code_simp

text \<open>
  C6: the exit status of the process is 0 when the run is an intentional no-op
  or every step of the remediation succeeds, and 1 otherwise, hence 1 when
  branch creation, fix application, push or creation of the pull request fails;
  when the template is absent in a run that is not a no-op, it is 1.
\<close>

theorem process_exit_status:
  "exit_status (fst (main L w)) =
     (if intentional_noop L w \<or> remediation_succeeds L w then 0 else 1) \<and>
   (\<not> intentional_noop L w \<and> \<not> template_present w \<longrightarrow> exit_status (fst (main L w)) = 1)"
proof -
  have eq: "exit_status (fst (main L w)) =
     (if intentional_noop L w \<or> remediation_succeeds L w then 0 else 1)"
  proof (cases "intentional_noop L w")
    case True
    then show ?thesis by (simp add: main_noop exit_status_def)
  next
    case False
    show ?thesis
    proof (cases "\<forall>f \<in> set (loaded_findings L w). is_finding f")
      case all: True
      with False have reached: "remediation_reached L w"
        by (auto simp: intentional_noop_def remediation_reached_def)
      then show ?thesis using False
        by (simp add: main_closed remediation_reached_def exit_status_remediate
            remediation_succeeds_def pr_opened_def Let_def)
    next
      case none: False
      with False show ?thesis
        by (auto simp: main_closed intentional_noop_def remediation_succeeds_def
            remediation_reached_def exit_status_def)
    qed
  qed
  moreover have "remediation_succeeds L w \<Longrightarrow> template_present w"
    by (simp add: remediation_succeeds_def fixes_committed_def)
  ultimately show ?thesis by auto
qed

theorem process_exit_status_witness:
  "exit_status (fst (main ascii_builtins world_no_template)) = 1"
proof -
  have "os_path_exists world_no_template results_path"
    by (simp add: world_no_template_def results_path_def)
  then have reached: "\<not> intentional_noop ascii_builtins world_no_template"
    by (simp add: intentional_noop_def loaded_world_no_template critical_and_high_of_def
        example_labels)
  have absent: "\<not> template_present world_no_template"
    by (simp add: template_present_def world_no_template_def world_with_def)
  show ?thesis
    using process_exit_status [where L = ascii_builtins and w = world_no_template]
      reached absent
    by simp
qed

text \<open>
  C7, as stated, fails: a run whose only loaded finding has the severity 5
  contains no CRITICAL and no HIGH finding, and \<^verbatim>\<open>main\<close> does not return 0 but is
  left by \<^verbatim>\<open>AttributeError\<close>.
\<close>

theorem no_critical_or_high_counterexample:
  "loaded_findings ascii_builtins (world_with (JObj [(''severity'', JInt 5)])) =
     [JObj [(''severity'', JInt 5)]] \<and>
   severity_label ascii_builtins (JObj [(''severity'', JInt 5)]) = None \<and>
   main ascii_builtins (world_with (JObj [(''severity'', JInt 5)])) =
     (Uncaught AttributeError, [])"
  by code_simp

text \<open>
  C7, amended: a run whose loaded findings contain no CRITICAL and no HIGH
  finding (the run without findings or without a results directory included)
  runs no command and copies no file; \<^verbatim>\<open>main\<close> returns 0 when the run is an
  intentional no-op, that is when every loaded finding is a dict whose severity,
  if present, is a string, and is left by \<^verbatim>\<open>AttributeError\<close> otherwise.
\<close>

theorem no_critical_or_high_no_commands:
  assumes "no_critical_or_high L w"
  shows "snd (main L w) = [] \<and>
         fst (main L w) =
           (if intentional_noop L w then Returned 0 else Uncaught AttributeError)"
proof (cases "os_path_exists w results_path")
  case False
  then show ?thesis by (simp add: main_closed intentional_noop_def)
next
  case True
  then have "critical_and_high_of L (loaded_findings L w) = []"
    using assms by (rule no_critical_or_high_empty)
  with True show ?thesis by (simp add: main_closed intentional_noop_def)
qed

theorem no_critical_or_high_no_commands_witness:
  "snd (main ascii_builtins (world_with medium_finding)) = [] \<and>
   fst (main ascii_builtins (world_with medium_finding)) = Returned 0"
proof -
  have h: "no_critical_or_high ascii_builtins (world_with medium_finding)"
    by (simp add: no_critical_or_high_def loaded_world_with example_labels)
  have n: "intentional_noop ascii_builtins (world_with medium_finding)"
    by (simp add: intentional_noop_def loaded_world_with critical_and_high_of_def
        example_labels example_findings)
  show ?thesis
    using no_critical_or_high_no_commands [OF h] n by simp
qed

text \<open>
  C9: when the severity of some finding is present and is not a string,
  \<^verbatim>\<open>categorize_findings\<close> raises \<^verbatim>\<open>AttributeError\<close>, and \<^verbatim>\<open>main\<close>, which calls it
  outside any \<^verbatim>\<open>try\<close>, is left by that exception before any command is run.
\<close>

theorem non_string_severity_raises:
  assumes "JObj kvs \<in> set findings"
      and "map_of kvs ''severity'' = Some v"
      and "\<forall>s. v \<noteq> JStr s"
  shows "categorize_findings L findings = Inl AttributeError \<and>
         (\<forall>w. os_path_exists w results_path \<and> loaded_findings L w = findings \<longrightarrow>
              main L w = (Uncaught AttributeError, []))"
proof -
  have "\<not> is_finding (JObj kvs)"
    using assms(2,3) by (rule not_finding_numeric)
  with assms(1) have "\<not> (\<forall>f \<in> set findings. is_finding f)"
    by blast
  then show ?thesis
    by (simp add: categorize_findings_closed main_closed)
qed

theorem non_string_severity_raises_witness:
  "categorize_findings ascii_builtins [high_finding, numeric_finding] = Inl AttributeError \<and>
   main ascii_builtins (world_with numeric_finding) = (Uncaught AttributeError, [])"
proof -
  have a: "JObj [(''severity'', JInt 5)] \<in> set [high_finding, numeric_finding]"
    and a': "JObj [(''severity'', JInt 5)] \<in> set [numeric_finding]"
    by (simp_all add: numeric_finding_def)
  have b: "map_of [(''severity'', JInt 5)] ''severity'' = Some (JInt 5)"
    by simp
  have c: "\<forall>s. JInt 5 \<noteq> JStr s"
    by simp
  have e: "os_path_exists (world_with numeric_finding) results_path"
    by (simp add: world_with_def)
  show ?thesis
    using non_string_severity_raises [OF a b c, where L = ascii_builtins]
      non_string_severity_raises [OF a' b c, where L = ascii_builtins]
      e loaded_world_with [where L = ascii_builtins and finding = numeric_finding]
    by simp
qed

text \<open>
  C10: a run that reaches the remediation path and checks out the base branch
  creates the branch \<^verbatim>\<open>security-fixes/critical-high-remediation\<close>; and every
  command of every run is one of six, so that the branch created, the branch
  pushed and the head of the pull request are that one branch, whatever the
  findings are.
\<close>

theorem fix_branch_is_constant:
  "(remediation_reached L w \<and> checkout_ok w \<longrightarrow>
      Run [''git'', ''checkout'', ''-b'', ''security-fixes/critical-high-remediation'']
        \<in> set (snd (main L w))) \<and>
   (Run cmd \<in> set (snd (main L w)) \<longrightarrow>
      cmd = [''git'', ''checkout'', ''main''] \<or>
      cmd = [''git'', ''checkout'', ''-b'', ''security-fixes/critical-high-remediation''] \<or>
      cmd = [''git'', ''add'', ''terraform/main.tf''] \<or>
      cmd = [''git'', ''commit'', ''-m'', commit_msg] \<or>
      cmd = [''git'', ''push'', ''-u'', ''origin'', ''security-fixes/critical-high-remediation''] \<or>
      (\<exists>title_text body.
         cmd = [''gh'', ''pr'', ''create'', ''--title'', title_text, ''--body'', body,
                ''--head'', ''security-fixes/critical-high-remediation'', ''--base'', ''main'']))"
proof -
  have first: "Run [''git'', ''checkout'', ''-b'', ''security-fixes/critical-high-remediation'']
        \<in> set (snd (main L w))"
    if "remediation_reached L w" "checkout_ok w"
  proof -
    have "subprocess_run w [''git'', ''checkout'', ''main''] = None"
      using that(2) by (simp add: checkout_ok_def)
    then show ?thesis
      using that(1) remediate_creates_branch[of w L "critical_and_high_of L (loaded_findings L w)"]
      by (simp add: main_closed remediation_reached_def)
  qed
  obtain body where "prefix (snd (main L w))
      (all_events (pr_title (length (critical_and_high_of L (loaded_findings L w)))) body)"
    using main_trace_prefix by blast
  then have "set (snd (main L w)) \<subseteq>
      set (all_events (pr_title (length (critical_and_high_of L (loaded_findings L w)))) body)"
    by (rule set_mono_prefix)
  then have second: "Run cmd \<in>
      set (all_events (pr_title (length (critical_and_high_of L (loaded_findings L w)))) body)"
    if "Run cmd \<in> set (snd (main L w))"
    using that by blast
  show ?thesis
  proof (intro conjI impI)
    assume "remediation_reached L w \<and> checkout_ok w"
    then show "Run [''git'', ''checkout'', ''-b'', ''security-fixes/critical-high-remediation'']
        \<in> set (snd (main L w))"
      using first by blast
  next
    assume "Run cmd \<in> set (snd (main L w))"
    from second[OF this] have "cmd = [''git'', ''checkout'', ''main''] \<or>
      cmd = [''git'', ''checkout'', ''-b'', ''security-fixes/critical-high-remediation''] \<or>
      cmd = [''git'', ''add'', ''terraform/main.tf''] \<or>
      cmd = [''git'', ''commit'', ''-m'', commit_msg] \<or>
      cmd = [''git'', ''push'', ''-u'', ''origin'', ''security-fixes/critical-high-remediation''] \<or>
      cmd = pr_command (pr_title (length (critical_and_high_of L (loaded_findings L w)))) body"
      by (simp add: all_events_def)
    then show "cmd = [''git'', ''checkout'', ''main''] \<or>
      cmd = [''git'', ''checkout'', ''-b'', ''security-fixes/critical-high-remediation''] \<or>
      cmd = [''git'', ''add'', ''terraform/main.tf''] \<or>
      cmd = [''git'', ''commit'', ''-m'', commit_msg] \<or>
      cmd = [''git'', ''push'', ''-u'', ''origin'', ''security-fixes/critical-high-remediation''] \<or>
      (\<exists>title_text body.
         cmd = [''gh'', ''pr'', ''create'', ''--title'', title_text, ''--body'', body,
                ''--head'', ''security-fixes/critical-high-remediation'', ''--base'', ''main''])"
      by (elim disjE) (simp_all add: pr_command_def)
  qed
qed

theorem fix_branch_is_constant_witness:
  "Run [''git'', ''checkout'', ''-b'', ''security-fixes/critical-high-remediation'']
     \<in> set (snd (main ascii_builtins (world_with critical_finding)))"
proof -
  have reached: "remediation_reached ascii_builtins (world_with critical_finding)"
    by (simp add: remediation_reached_def loaded_world_with critical_and_high_of_def
        example_labels example_findings)
       (simp add: world_with_def)
  have ok: "checkout_ok (world_with critical_finding)"
    by (simp add: checkout_ok_def world_with_def)
  show ?thesis
    by (rule fix_branch_is_constant [THEN conjunct1, THEN mp]) (simp add: reached ok)
qed

end
